theory Spec2Isabelle
  imports Main
begin

section \<open>Values, errors and the registry class\<close>

text \<open>
  A Python dictionary keeps insertion order and has pairwise distinct keys. It is modelled
  as an association list; \<open>dict_set\<close> is the assignment \<^verbatim>\<open>d[key] = value\<close>: an existing
  key keeps its position and gets the new value, a new key is appended.
\<close>

datatype pyval =
    VNone
  | VStr string
  | VInt int
  | VBool bool
  | VDict "(string \<times> pyval) list"
  | VObj string "pyval list"
  | VInst string

type_synonym dict = "(string \<times> pyval) list"

text \<open>
  \<open>VObj\<close> is an object built by a constructor (a class name and what it was built from),
  \<open>VInst c\<close> the bare instance \<^verbatim>\<open>c.__new__(c)\<close> of a class.

  The exceptions of \<^verbatim>\<open>_registry.py\<close>, one constructor per raise site:
  \<open>UnknownRegistry r\<close> is \<^verbatim>\<open>ValueError(f"Unknown registry: '{r}'")\<close>,
  \<open>CouldNotFind f r\<close> is \<^verbatim>\<open>ValueError(f"Could not find '{f}' in '{r}'")\<close>,
  \<open>BareValueError\<close> is the \<^verbatim>\<open>raise ValueError\<close> of \<^verbatim>\<open>get_constructor\<close>.
  \<open>AttributeError\<close>, \<open>TypeError\<close> and \<open>KeyError\<close> are raised by the interpreter,
  \<open>ValidationError\<close> by the schema, \<open>Raised\<close> by a registered function.
\<close>

datatype error =
    UnknownRegistry string
  | CouldNotFind pyval string
  | BareValueError
  | AttributeError
  | TypeError
  | KeyError string
  | ValidationError "(string \<times> string) list"
  | Raised string

fun dict_set :: "(string \<times> 'v) list \<Rightarrow> string \<Rightarrow> 'v \<Rightarrow> (string \<times> 'v) list" where
  "dict_set [] k v = [(k, v)]"
| "dict_set ((k', v') # d) k v = (if k' = k then (k, v) # d else (k', v') # dict_set d k v)"

fun dict_get :: "(string \<times> 'v) list \<Rightarrow> string \<Rightarrow> 'v option" where
  "dict_get [] k = None"
| "dict_get ((k', v') # d) k = (if k' = k then Some v' else dict_get d k)"

text \<open>
  The annotation of a parameter or of a schema field. \<open>TModel\<close> is a nested schema: its
  fields, each with its type and its default (\<open>None\<close> for a required field, Python's
  \<^verbatim>\<open>...\<close>), and whether unknown fields are forbidden.
\<close>

datatype ty =
    TAny
  | TStr
  | TInt
  | TBool
  | TClass string
  | TModel "(string \<times> ty \<times> pyval option) list" bool

text \<open>
  A registered function: what \<^verbatim>\<open>inspect.signature\<close> reads from it (its parameters
  with annotation and default, its return annotation) and what calling it with
  \<^verbatim>\<open>(*args, **kwargs)\<close> gives.
\<close>

record ctor =
  params :: "(string \<times> ty \<times> pyval option) list"
  ret :: string
  call :: "pyval list \<Rightarrow> dict \<Rightarrow> error + pyval"

text \<open>
  The attributes of the class \<^verbatim>\<open>registry\<close>. \<^verbatim>\<open>hasattr(cls, name)\<close> holds for each
  of them; only some are registries. A registry is what \<^verbatim>\<open>catalogue.create\<close> returns:
  its \<^verbatim>\<open>get\<close> is taken, as lines 33 to 35 of the source take it, to return the function
  or \<^verbatim>\<open>None\<close>. Any other attribute (a method of the class) has no \<^verbatim>\<open>get\<close>.
\<close>

datatype attr = Registry "string \<Rightarrow> ctor option" | Method

type_synonym cls = "string \<Rightarrow> attr option"

text \<open>The class as its body declares it: three registries and nine class methods.\<close>

definition registry_class ::
  "(string \<Rightarrow> ctor option) \<Rightarrow> (string \<Rightarrow> ctor option) \<Rightarrow> (string \<Rightarrow> ctor option) \<Rightarrow> cls" where
  "registry_class optimizers schedules layers =
     [''optimizers'' \<mapsto> Registry optimizers,
      ''schedules'' \<mapsto> Registry schedules,
      ''layers'' \<mapsto> Registry layers,
      ''create'' \<mapsto> Method,
      ''get'' \<mapsto> Method,
      ''make_from_config'' \<mapsto> Method,
      ''fill_and_validate'' \<mapsto> Method,
      ''is_promise'' \<mapsto> Method,
      ''get_constructor'' \<mapsto> Method,
      ''parse_args'' \<mapsto> Method,
      ''make_promise_schema'' \<mapsto> Method,
      ''get_return_type'' \<mapsto> Method]"

section \<open>Registry lookup\<close>

text \<open>
  \<^verbatim>\<open>reg.get(func_name)\<close>: the registry is keyed by strings, so a name that is not a
  string is not in it.
\<close>

fun reg_get :: "(string \<Rightarrow> ctor option) \<Rightarrow> pyval \<Rightarrow> ctor option" where
  "reg_get reg (VStr name) = reg name"
| "reg_get reg _ = None"

text \<open>\<^verbatim>\<open>registry.get\<close>, lines 27 to 36.\<close>

definition get :: "cls \<Rightarrow> string \<Rightarrow> pyval \<Rightarrow> error + ctor" where
  "get c registry_name func_name =
     (case c registry_name of
        None \<Rightarrow> Inl (UnknownRegistry registry_name)
      | Some Method \<Rightarrow> Inl AttributeError
      | Some (Registry reg) \<Rightarrow>
          (case reg_get reg func_name of
             None \<Rightarrow> Inl (CouldNotFind func_name registry_name)
           | Some func \<Rightarrow> Inr func))"

section \<open>Promises\<close>

text \<open>\<^verbatim>\<open>k.startswith("@")\<close>\<close>

fun startswith_at :: "string \<Rightarrow> bool" where
  "startswith_at [] = False"
| "startswith_at (c # cs) = (c = CHR ''@'')"

definition id_keys :: "(string \<times> 'v) list \<Rightarrow> string list" where
  "id_keys obj = filter startswith_at (map fst obj)"

text \<open>\<^verbatim>\<open>is_promise\<close> on a dictionary, lines 88 to 96, and on any value.\<close>

definition is_promise :: "(string \<times> 'v) list \<Rightarrow> bool" where
  "is_promise obj = (length (id_keys obj) = 1)"

fun is_promise_val :: "pyval \<Rightarrow> bool" where
  "is_promise_val (VDict obj) = is_promise obj"
| "is_promise_val _ = False"

text \<open>\<^verbatim>\<open>get_constructor\<close>, lines 98 to 106; \<open>tl key\<close> is \<^verbatim>\<open>key[1:]\<close>.\<close>

definition get_constructor :: "cls \<Rightarrow> dict \<Rightarrow> error + ctor" where
  "get_constructor c obj =
     (case id_keys obj of
        [key] \<Rightarrow>
          (case dict_get obj key of
             None \<Rightarrow> Inl (KeyError key)
           | Some v \<Rightarrow> get c (tl key) v)
      | _ \<Rightarrow> Inl BareValueError)"

section \<open>Binding arguments\<close>

text \<open>
  \<^verbatim>\<open>key.isdigit()\<close> and \<^verbatim>\<open>int(key)\<close> on a string of ASCII characters: a non-empty
  string of decimal digits, read in base ten.
\<close>

definition is_digit_char :: "char \<Rightarrow> bool" where
  "is_digit_char c = (48 \<le> (of_char c :: nat) \<and> (of_char c :: nat) \<le> 57)"

definition isdigit :: "string \<Rightarrow> bool" where
  "isdigit s = (s \<noteq> [] \<and> list_all is_digit_char s)"

definition digit_val :: "char \<Rightarrow> int" where
  "digit_val c = int (of_char c :: nat) - 48"

definition int_of_str :: "string \<Rightarrow> int" where
  "int_of_str s = foldl (\<lambda>n c. 10 * n + digit_val c) 0 s"

text \<open>
  \<^verbatim>\<open>sorted(args)\<close> sorts the pairs \<^verbatim>\<open>(int(key), value)\<close> as tuples. Python compares
  two tuples at the first position where they differ: the integers when they differ,
  otherwise the two values, unless these are equal too. What \<^verbatim>\<open>==\<close> and \<^verbatim>\<open><\<close> say
  of two values is up to their classes: \<open>eq\<close> and \<open>lt\<close> are parameters, and \<open>lt\<close> gives
  \<open>None\<close> where \<^verbatim>\<open><\<close> raises \<^verbatim>\<open>TypeError\<close>.
\<close>

record py_ops =
  eq :: "pyval \<Rightarrow> pyval \<Rightarrow> bool"
  lt :: "pyval \<Rightarrow> pyval \<Rightarrow> bool option"

definition tuple_lt :: "py_ops \<Rightarrow> int \<times> pyval \<Rightarrow> int \<times> pyval \<Rightarrow> error + bool" where
  "tuple_lt ops a b =
     (if fst a \<noteq> fst b then Inr (fst a < fst b)
      else if eq ops (snd a) (snd b) then Inr False
      else (case lt ops (snd a) (snd b) of None \<Rightarrow> Inl TypeError | Some r \<Rightarrow> Inr r))"

text \<open>
  \<^verbatim>\<open>sorted\<close> is a stable comparison sort that only asks \<^verbatim>\<open><\<close>; on the short lists of a
  configuration it is an insertion sort. Each element is put before the first element
  it is smaller than, and a comparison that raises ends the sort.
\<close>

fun insert_sorted ::
  "('a \<Rightarrow> 'a \<Rightarrow> error + bool) \<Rightarrow> 'a \<Rightarrow> 'a list \<Rightarrow> error + 'a list" where
  "insert_sorted cmp x [] = Inr [x]"
| "insert_sorted cmp x (y # ys) =
     (case cmp x y of
        Inl e \<Rightarrow> Inl e
      | Inr True \<Rightarrow> Inr (x # y # ys)
      | Inr False \<Rightarrow>
          (case insert_sorted cmp x ys of Inl e \<Rightarrow> Inl e | Inr r \<Rightarrow> Inr (y # r)))"

fun sorted_from ::
  "('a \<Rightarrow> 'a \<Rightarrow> error + bool) \<Rightarrow> 'a list \<Rightarrow> 'a list \<Rightarrow> error + 'a list" where
  "sorted_from cmp acc [] = Inr acc"
| "sorted_from cmp acc (x # xs) =
     (case insert_sorted cmp x acc of
        Inl e \<Rightarrow> Inl e
      | Inr acc' \<Rightarrow> sorted_from cmp acc' xs)"

definition py_sorted :: "('a \<Rightarrow> 'a \<Rightarrow> error + bool) \<Rightarrow> 'a list \<Rightarrow> error + 'a list" where
  "py_sorted cmp xs = sorted_from cmp [] xs"

text \<open>
  The loop of \<^verbatim>\<open>parse_args\<close>, lines 112 to 117, with \<open>args\<close> and \<open>kwargs\<close> as they
  stand so far, and \<^verbatim>\<open>parse_args\<close> itself, lines 108 to 118. A key is a string here, so
  the test \<^verbatim>\<open>isinstance(key, int)\<close> is false.
\<close>

fun parse_args_loop ::
  "dict \<Rightarrow> (int \<times> pyval) list \<Rightarrow> dict \<Rightarrow> (int \<times> pyval) list \<times> dict" where
  "parse_args_loop [] args kwargs = (args, kwargs)"
| "parse_args_loop ((key, v) # rest) args kwargs =
     (if \<not> startswith_at key then
        (if isdigit key then parse_args_loop rest (args @ [(int_of_str key, v)]) kwargs
         else parse_args_loop rest args (dict_set kwargs key v))
      else parse_args_loop rest args kwargs)"

definition parse_args :: "py_ops \<Rightarrow> dict \<Rightarrow> error + (pyval list \<times> dict)" where
  "parse_args ops obj =
     (case parse_args_loop obj [] [] of
        (args, kwargs) \<Rightarrow>
          (case py_sorted (tuple_lt ops) args of
             Inl e \<Rightarrow> Inl e
           | Inr sorted_args \<Rightarrow> Inr (map snd sorted_args, kwargs)))"

section \<open>Resolving a configuration\<close>

text \<open>
  \<^verbatim>\<open>make_from_config\<close>, lines 38 to 56: \<open>resolve_items\<close> is its loop over the items of
  \<open>config\<close>, with \<open>filled\<close> as it stands so far.
\<close>

function resolve_items :: "py_ops \<Rightarrow> cls \<Rightarrow> dict \<Rightarrow> dict \<Rightarrow> error + dict"
  and make_from_config :: "py_ops \<Rightarrow> cls \<Rightarrow> dict \<Rightarrow> error + pyval" where
  "resolve_items ops c [] filled = Inr filled"
| "resolve_items ops c ((key, v) # rest) filled =
     (case v of
        VDict d \<Rightarrow>
          (case make_from_config ops c d of
             Inl e \<Rightarrow> Inl e
           | Inr r \<Rightarrow> resolve_items ops c rest (dict_set filled key r))
      | _ \<Rightarrow> resolve_items ops c rest (dict_set filled key v))"
| "make_from_config ops c config =
     (case resolve_items ops c config [] of
        Inl e \<Rightarrow> Inl e
      | Inr filled \<Rightarrow>
          (if is_promise filled then
             (case get_constructor c filled of
                Inl e \<Rightarrow> Inl e
              | Inr getter \<Rightarrow>
                  (case parse_args ops filled of
                     Inl e \<Rightarrow> Inl e
                   | Inr (args, kwargs) \<Rightarrow> call getter args kwargs))
           else Inr (VDict filled)))"
  by pat_completeness auto
termination
  by (relation "measure (\<lambda>x. case x of
        Inl (ops, c, items, filled) \<Rightarrow> 2 * size_list (size_prod (\<lambda>_. 0) size) items
      | Inr (ops, c, config) \<Rightarrow> 2 * size_list (size_prod (\<lambda>_. 0) size) config + 1)")
     auto

text \<open>
  What line 47 to 50 do with one value: a dictionary is resolved, anything else is kept.
\<close>

definition resolve_value :: "py_ops \<Rightarrow> cls \<Rightarrow> pyval \<Rightarrow> error + pyval" where
  "resolve_value ops c v = (case v of VDict d \<Rightarrow> make_from_config ops c d | _ \<Rightarrow> Inr v)"

text \<open>
  The depth-first reading of the loop: the values of a mapping resolved one after the
  other, in the order of its keys, the first failure ending the resolution.
\<close>

fun resolve_children :: "py_ops \<Rightarrow> cls \<Rightarrow> dict \<Rightarrow> error + dict" where
  "resolve_children ops c [] = Inr []"
| "resolve_children ops c ((key, v) # rest) =
     (case resolve_value ops c v of
        Inl e \<Rightarrow> Inl e
      | Inr r \<Rightarrow>
          (case resolve_children ops c rest of
             Inl e \<Rightarrow> Inl e
           | Inr rs \<Rightarrow> Inr ((key, r) # rs)))"

text \<open>Looking the constructor of a resolved promise up, binding its arguments, calling it.\<close>

definition invoke :: "py_ops \<Rightarrow> cls \<Rightarrow> dict \<Rightarrow> error + pyval" where
  "invoke ops c filled =
     (case get_constructor c filled of
        Inl e \<Rightarrow> Inl e
      | Inr getter \<Rightarrow>
          (case parse_args ops filled of
             Inl e \<Rightarrow> Inl e
           | Inr (args, kwargs) \<Rightarrow> call getter args kwargs))"

section \<open>Well-formed configurations\<close>

text \<open>
  The keys of a Python dictionary are pairwise distinct, at every level of a tree; a
  tree has no promise when no mapping in it, the tree itself included, is one.
\<close>

fun wf_val :: "pyval \<Rightarrow> bool" where
  "wf_val (VDict d) = (distinct (map fst d) \<and> (\<forall>(k, v) \<in> set d. wf_val v))"
| "wf_val _ = True"

fun no_promise :: "pyval \<Rightarrow> bool" where
  "no_promise (VDict d) = (\<not> is_promise d \<and> (\<forall>(k, v) \<in> set d. no_promise v))"
| "no_promise _ = True"

text \<open>The class with the declared parameters and return types of its functions forgotten.\<close>

definition erase_sig :: "ctor \<Rightarrow> ctor" where
  "erase_sig f = f\<lparr>params := [], ret := []\<rparr>"

fun erase_attr :: "attr \<Rightarrow> attr" where
  "erase_attr (Registry reg) = Registry (\<lambda>name. map_option erase_sig (reg name))"
| "erase_attr Method = Method"

definition erase_sigs :: "cls \<Rightarrow> cls" where
  "erase_sigs c = (\<lambda>name. map_option erase_attr (c name))"

section \<open>A registry to run the examples of the specification\<close>

text \<open>
  \<^verbatim>\<open>==\<close> and \<^verbatim>\<open><\<close> for the examples: values are equal when they are the same, and
  only two integers are ordered; \<^verbatim>\<open>"a" < 5\<close> raises \<^verbatim>\<open>TypeError\<close>.
\<close>

fun example_lt :: "pyval \<Rightarrow> pyval \<Rightarrow> bool option" where
  "example_lt (VInt a) (VInt b) = Some (a < b)"
| "example_lt _ _ = None"

definition example_ops :: py_ops where
  "example_ops = \<lparr>eq = (=), lt = example_lt\<rparr>"

text \<open>
  Calling a function whose parameters are \<open>ps\<close> (each with its default, if any): the
  positional arguments go to the first parameters, the keyword arguments to the
  parameters of their names, and a parameter left without a value takes its default.
  Python raises \<^verbatim>\<open>TypeError\<close> for too many positional arguments, a parameter given
  twice, a name that is no parameter, and a parameter without value or default.
\<close>

fun bind_rest :: "(string \<times> pyval option) list \<Rightarrow> dict \<Rightarrow> error + pyval list" where
  "bind_rest [] kwargs = Inr []"
| "bind_rest ((name, dflt) # ps) kwargs =
     (case (case dict_get kwargs name of Some v \<Rightarrow> Some v | None \<Rightarrow> dflt) of
        None \<Rightarrow> Inl TypeError
      | Some v \<Rightarrow>
          (case bind_rest ps kwargs of Inl e \<Rightarrow> Inl e | Inr vs \<Rightarrow> Inr (v # vs)))"

definition bind :: "(string \<times> pyval option) list \<Rightarrow> pyval list \<Rightarrow> dict \<Rightarrow> error + pyval list" where
  "bind ps args kwargs =
     (if length ps < length args then Inl TypeError
      else if \<exists>k \<in> set (map fst kwargs). k \<in> set (map fst (take (length args) ps)) then Inl TypeError
      else if \<exists>k \<in> set (map fst kwargs). k \<notin> set (map fst ps) then Inl TypeError
      else (case bind_rest (drop (length args) ps) kwargs of
              Inl e \<Rightarrow> Inl e
            | Inr vs \<Rightarrow> Inr (args @ vs)))"

definition build :: "string \<Rightarrow> (string \<times> pyval option) list \<Rightarrow> pyval list \<Rightarrow> dict \<Rightarrow> error + pyval" where
  "build name ps args kwargs =
     (case bind ps args kwargs of Inl e \<Rightarrow> Inl e | Inr vs \<Rightarrow> Inr (VObj name vs))"

text \<open>
  \<^verbatim>\<open>Embed.v0(nO: int, nV: int) -> Model\<close>, \<^verbatim>\<open>Softmax.v0(nO: int, nI: int = 0) -> Model\<close>
  and \<^verbatim>\<open>Chain.v0(*layers) -> Model\<close>: each returns an object that records its arguments.
\<close>

definition embed_v0 :: ctor where
  "embed_v0 =
     \<lparr>params = [(''nO'', TInt, None), (''nV'', TInt, None)], ret = ''Model'',
      call = build ''Embed'' [(''nO'', None), (''nV'', None)]\<rparr>"

definition softmax_v0 :: ctor where
  "softmax_v0 =
     \<lparr>params = [(''nO'', TInt, None), (''nI'', TInt, Some (VInt 0))], ret = ''Model'',
      call = build ''Softmax'' [(''nO'', None), (''nI'', Some (VInt 0))]\<rparr>"

definition chain_v0 :: ctor where
  "chain_v0 =
     \<lparr>params = [(''layers'', TAny, None)], ret = ''Model'',
      call = (\<lambda>args kwargs. if kwargs = [] then Inr (VObj ''Chain'' args) else Inl TypeError)\<rparr>"

definition example_layers :: "string \<Rightarrow> ctor option" where
  "example_layers =
     [''Embed.v0'' \<mapsto> embed_v0, ''Softmax.v0'' \<mapsto> softmax_v0, ''Chain.v0'' \<mapsto> chain_v0]"

definition example_class :: cls where
  "example_class = registry_class Map.empty Map.empty example_layers"

text \<open>A configuration without promises, after the benchmark's \<^verbatim>\<open>[data]\<close> and \<^verbatim>\<open>[common]\<close>.\<close>

definition data_config :: dict where
  "data_config =
     [(''data'', VDict [(''n_samples'', VInt 20000), (''n_tags'', VInt 20)]),
      (''common'', VDict [(''width'', VInt 300)]),
      (''name'', VStr ''tagger'')]"

section \<open>The resolver is a depth-first walk\<close>

lemma dict_set_fresh: "k \<notin> fst ` set d \<Longrightarrow> dict_set d k v = d @ [(k, v)]"
  by (induction d) auto

lemma resolve_items_Cons:
  "resolve_items ops c ((key, v) # rest) filled =
     (case resolve_value ops c v of
        Inl e \<Rightarrow> Inl e
      | Inr r \<Rightarrow> resolve_items ops c rest (dict_set filled key r))"
  by (cases v) (simp_all add: resolve_value_def)

lemma resolve_children_keys:
  "resolve_children ops c items = Inr rs \<Longrightarrow> map fst rs = map fst items"
proof (induction items arbitrary: rs)
  case Nil
  then show ?case by simp
next
  case (Cons item items)
  obtain k v where item: "item = (k, v)" by (cases item)
  from Cons.prems item obtain r rs' where
    "resolve_children ops c items = Inr rs'" "rs = (k, r) # rs'"
    by (auto split: sum.splits)
  then show ?case using Cons.IH item by simp
qed

lemma resolve_items_children:
  "distinct (map fst (acc @ items)) \<Longrightarrow>
   resolve_items ops c items acc =
     (case resolve_children ops c items of Inl e \<Rightarrow> Inl e | Inr rs \<Rightarrow> Inr (acc @ rs))"
proof (induction items arbitrary: acc)
  case Nil
  show ?case by simp
next
  case (Cons item items)
  obtain k v where item: "item = (k, v)" by (cases item)
  show ?case
  proof (cases "resolve_value ops c v")
    case (Inl e)
    then show ?thesis using item by (simp add: resolve_items_Cons del: resolve_items.simps)
  next
    case (Inr r)
    have fresh: "k \<notin> fst ` set acc" using Cons.prems item by auto
    have dist: "distinct (map fst ((acc @ [(k, r)]) @ items))" using Cons.prems item by auto
    have step: "resolve_items ops c (item # items) acc = resolve_items ops c items (acc @ [(k, r)])"
      using Inr item fresh by (simp add: resolve_items_Cons dict_set_fresh del: resolve_items.simps)
    show ?thesis
      unfolding step Cons.IH [OF dist] using Inr item by (simp split: sum.splits)
  qed
qed

lemma is_promise_keys: "map fst d = map fst d' \<Longrightarrow> is_promise d = is_promise d'"
  by (simp add: is_promise_def id_keys_def)

lemma make_from_config_children:
  assumes "distinct (map fst config)"
  shows "make_from_config ops c config =
     (case resolve_children ops c config of
        Inl e \<Rightarrow> Inl e
      | Inr filled \<Rightarrow> if is_promise config then invoke ops c filled else Inr (VDict filled))"
proof (cases "resolve_children ops c config")
  case (Inl e)
  then show ?thesis using resolve_items_children [of "[]" config ops c] assms by simp
next
  case (Inr filled)
  have "resolve_items ops c config [] = Inr filled"
    using resolve_items_children [of "[]" config ops c] assms Inr by simp
  moreover have "is_promise filled = is_promise config"
    using resolve_children_keys [OF Inr] by (rule is_promise_keys)
  ultimately show ?thesis using Inr by (simp add: invoke_def)
qed

section \<open>Configurations without promises\<close>

lemma resolve_children_same:
  "\<forall>(k, v) \<in> set items. resolve_value ops c v = Inr v \<Longrightarrow>
   resolve_children ops c items = Inr items"
  by (induction items) auto

lemma resolve_value_same:
  "wf_val v \<Longrightarrow> no_promise v \<Longrightarrow> resolve_value ops c v = Inr v"
proof (induction v)
  case (VDict d)
  have "\<And>k x. (k, x) \<in> set d \<Longrightarrow> resolve_value ops c x = Inr x"
  proof -
    fix k x assume mem: "(k, x) \<in> set d"
    have "wf_val x" "no_promise x" using VDict.prems mem by auto
    moreover have "x \<in> Basic_BNFs.snds (k, x)" by simp
    ultimately show "resolve_value ops c x = Inr x"
      using VDict.IH mem by blast
  qed
  then have "resolve_children ops c d = Inr d" by (intro resolve_children_same) auto
  moreover have "distinct (map fst d)" "\<not> is_promise d" using VDict.prems by simp_all
  ultimately show ?case
    by (simp add: resolve_value_def make_from_config_children del: make_from_config.simps)
qed (simp_all add: resolve_value_def)

text \<open>
  C3: a configuration tree in which no mapping is a promise resolves to itself: every
  scalar is returned unchanged, every mapping keeps its keys, in their order, with the
  resolved values.
\<close>

theorem make_from_config_no_promise:
  "wf_val (VDict config) \<Longrightarrow> no_promise (VDict config) \<Longrightarrow>
   make_from_config ops c config = Inr (VDict config)"
  using resolve_value_same [of "VDict config" ops c] by (simp add: resolve_value_def)

theorem make_from_config_no_promise_witness:
  "wf_val (VDict data_config) \<and> no_promise (VDict data_config) \<and>
   make_from_config example_ops example_class data_config = Inr (VDict data_config)"
proof -
  have w: "wf_val (VDict data_config)"
    by (simp add: data_config_def)
  have n: "no_promise (VDict data_config)"
    by (simp add: data_config_def is_promise_def id_keys_def)
  show ?thesis
    using w n make_from_config_no_promise [OF w n, of example_ops example_class] by simp
qed

section \<open>Registry lookup\<close>

lemma get_cases:
  "get c r n =
     (case c r of
        None \<Rightarrow> Inl (UnknownRegistry r)
      | Some Method \<Rightarrow> Inl AttributeError
      | Some (Registry reg) \<Rightarrow>
          (case reg_get reg n of None \<Rightarrow> Inl (CouldNotFind n r) | Some f \<Rightarrow> Inr f))"
  by (simp add: get_def)

text \<open>
  C9: a lookup in a category that is no registry is meant to fail with the error for an
  unknown registry. \<^verbatim>\<open>get\<close> decides with \<^verbatim>\<open>hasattr(cls, registry_name)\<close>, which also
  holds for the methods of the class: for the name \<^verbatim>\<open>get\<close> the lookup goes on with the
  bound method, which has no \<^verbatim>\<open>get\<close>, and ends in \<^verbatim>\<open>AttributeError\<close>.
\<close>

theorem get_method_name:
  "get (registry_class optimizers schedules layers) ''get'' (VStr ''x'') = Inl AttributeError"
  by (simp add: get_def registry_class_def)

end
